theory Spec2Isabelle
  imports Complex_Main "HOL-Library.Word"
begin

section \<open>The dense three-dimensional tensor of \<^verbatim>\<open>matrix3d.h\<close>\<close>

text \<open>
  The header \<^verbatim>\<open>include/frugally_deep/matrix3d.h\<close> defines the class
  \<^verbatim>\<open>fd::matrix3d\<close> (a shape and a flat \<^verbatim>\<open>std::vector\<close> of scalars) and free
  functions over it. Every function below is a translation of the C++ function of the
  same name.

  Conventions of the embedding.
  \<^item> \<^verbatim>\<open>std::size_t\<close> extents, coordinates and indices are natural numbers. Arithmetic
    in \<^verbatim>\<open>std::size_t\<close> gives the natural result modulo \<open>2 ^ 64\<close>, and the vector of a
    tensor has fewer than \<open>2 ^ 64\<close> elements: whenever the index computed here lies
    inside the vector, it is the index that \<^verbatim>\<open>idx\<close> computes on 64-bit words (lemma
    \<open>idx_size_t_in_vector\<close>). Shapes whose product of extents does not fit
    \<^verbatim>\<open>std::size_t\<close>, and positions so far outside the shape that the index would wrap
    around, are outside the model.
  \<^item> \<^verbatim>\<open>float_t\<close> is a real number: a finite floating point value is the real it
    denotes, and \<open><\<close> and \<open>>\<close> on finite values are the comparisons of the reals.
    Rounding, infinities and NaN are outside the model (so is a division by zero, which
    is 0 in HOL).
  \<^item> A failed \<^verbatim>\<open>assert\<close> (a build with assertions enabled) and an access to
    \<^verbatim>\<open>values_[i]\<close> with \<open>i\<close> outside the vector (undefined behaviour in C++) are
    errors: every function that can reach one returns \<open>error + 'a\<close>, with \<open>Inl\<close> for
    the error.
  \<^item> A member function that mutates its receiver returns the updated tensor.
  \<^item> A data member keeps its name without the trailing underscore, which a HOL name
    cannot end with, and with a letter for its class in front: \<^verbatim>\<open>size_\<close> and
    \<^verbatim>\<open>values_\<close> are \<open>m_size\<close> and \<open>m_values\<close>, \<^verbatim>\<open>depth_\<close> is \<open>s_depth\<close>,
    \<^verbatim>\<open>z_\<close> is \<open>p_z\<close>. The two constructors are \<open>matrix3d_new\<close> and
    \<open>matrix3d_zeros\<close>, the member functions \<^verbatim>\<open>get\<close> and \<^verbatim>\<open>set\<close> are \<open>matrix3d_get\<close>
    and \<open>matrix3d_set\<close>.
  \<^item> \<^verbatim>\<open>show_matrix3d\<close>, \<^verbatim>\<open>matrix3d_sum_all_values\<close> and the four operators, which only
    call the named functions, are not translated.
\<close>

subsection \<open>Collaborators that are declared in other headers\<close>

type_synonym float_t = real
type_synonym float_vec = "float_t list"

text \<open>
  Modelled from the spec: \<^verbatim>\<open>typedefs.h\<close> is not among the sources. The scalar is the
  single precision type that the literal \<^verbatim>\<open>0.0f\<close> of the constructor suggests, and
  the two constants are what the C++ standard library gives for it:
  \<^verbatim>\<open>std::numeric_limits<float>::min()\<close> is the smallest \<^emph>\<open>positive\<close> normal value
  \<open>1 / 2 ^ 126\<close>, and \<^verbatim>\<open>max()\<close> is the largest finite value \<open>(2 - 1 / 2 ^ 23) * 2 ^ 127\<close>.
\<close>

definition numeric_limits_min :: float_t where
  "numeric_limits_min = 1 / 2 ^ 126"

definition numeric_limits_max :: float_t where
  "numeric_limits_max = (2 - 1 / 2 ^ 23) * 2 ^ 127"

text \<open>
  Modelled from the spec: \<^verbatim>\<open>size3d.h\<close> is not among the sources. A shape is the triple
  (depth, height, width); the source reads its fields \<^verbatim>\<open>depth_\<close>, \<^verbatim>\<open>height_\<close>,
  \<^verbatim>\<open>width_\<close> and calls \<^verbatim>\<open>volume()\<close>, which the spec gives as
  depth \<open>\<times>\<close> height \<open>\<times>\<close> width.
\<close>

record size3d =
  s_depth :: nat
  s_height :: nat
  s_width :: nat

definition volume :: "size3d \<Rightarrow> nat" where
  "volume s = s_depth s * s_height s * s_width s"

text \<open>
  Modelled from the spec: \<^verbatim>\<open>matrix3d_pos.h\<close> is not among the sources. A position is
  the triple (z, y, x) built by \<^verbatim>\<open>matrix3d_pos(z, y, x)\<close>; the source reads its fields
  \<^verbatim>\<open>z_\<close>, \<^verbatim>\<open>y_\<close>, \<^verbatim>\<open>x_\<close>.
\<close>

record matrix3d_pos =
  p_z :: nat
  p_y :: nat
  p_x :: nat

definition pos :: "nat \<Rightarrow> nat \<Rightarrow> nat \<Rightarrow> matrix3d_pos" where
  "pos z y x = \<lparr>p_z = z, p_y = y, p_x = x\<rparr>"

subsection \<open>The class \<^verbatim>\<open>matrix3d\<close>\<close>

datatype error = AssertionFailed | OutOfRange

record matrix3d =
  m_size :: size3d
  m_values :: float_vec

text \<open>\<^verbatim>\<open>matrix3d(shape, values)\<close>: asserts \<^verbatim>\<open>shape.volume() == values.size()\<close>.\<close>

definition matrix3d_new :: "size3d \<Rightarrow> float_vec \<Rightarrow> error + matrix3d" where
  "matrix3d_new shape values =
     (if volume shape = length values
      then Inr \<lparr>m_size = shape, m_values = values\<rparr>
      else Inl AssertionFailed)"

text \<open>\<^verbatim>\<open>matrix3d(shape)\<close>: \<^verbatim>\<open>shape.volume()\<close> zeros.\<close>

definition matrix3d_zeros :: "size3d \<Rightarrow> matrix3d" where
  "matrix3d_zeros shape = \<lparr>m_size = shape, m_values = replicate (volume shape) 0\<rparr>"

text \<open>The private \<^verbatim>\<open>idx\<close>: the row-major linearization, with no check of the position.\<close>

definition idx :: "matrix3d \<Rightarrow> matrix3d_pos \<Rightarrow> nat" where
  "idx m p =
     p_z p * s_height (m_size m) * s_width (m_size m) +
     p_y p * s_width (m_size m) +
     p_x p"

text \<open>
  The same expression on 64-bit words, as \<^verbatim>\<open>std::size_t\<close> computes it, to compare
  \<open>idx\<close> with.
\<close>

type_synonym size_t = "64 word"

definition idx_size_t :: "size_t \<Rightarrow> size_t \<Rightarrow> size_t \<Rightarrow> size_t \<Rightarrow> size_t \<Rightarrow> size_t" where
  "idx_size_t height width z y x = z * height * width + y * width + x"

text \<open>
  \<^verbatim>\<open>get\<close> and \<^verbatim>\<open>set\<close> index the vector with \<^verbatim>\<open>operator[]\<close> at \<^verbatim>\<open>idx(pos)\<close>. The only
  way they fail is an index outside the vector; the coordinates are not compared with
  the shape.
\<close>

definition matrix3d_get :: "matrix3d \<Rightarrow> matrix3d_pos \<Rightarrow> error + float_t" where
  "matrix3d_get m p =
     (if idx m p < length (m_values m) then Inr (m_values m ! idx m p) else Inl OutOfRange)"

definition matrix3d_set :: "matrix3d \<Rightarrow> matrix3d_pos \<Rightarrow> float_t \<Rightarrow> error + matrix3d" where
  "matrix3d_set m p v =
     (if idx m p < length (m_values m)
      then Inr (m\<lparr>m_values := (m_values m)[idx m p := v]\<rparr>)
      else Inl OutOfRange)"

text \<open>The overloads \<^verbatim>\<open>get(z, y, x)\<close> and \<^verbatim>\<open>set(z, y, x, value)\<close>.\<close>

definition matrix3d_get3 :: "matrix3d \<Rightarrow> nat \<Rightarrow> nat \<Rightarrow> nat \<Rightarrow> error + float_t" where
  "matrix3d_get3 m z y x = matrix3d_get m (pos z y x)"

definition matrix3d_set3 :: "matrix3d \<Rightarrow> nat \<Rightarrow> nat \<Rightarrow> nat \<Rightarrow> float_t \<Rightarrow> error + matrix3d" where
  "matrix3d_set3 m z y x v = matrix3d_set m (pos z y x) v"

text \<open>\<^verbatim>\<open>as_vector()\<close> is the field \<open>m_values\<close> and \<^verbatim>\<open>size()\<close> is the field \<open>m_size\<close>.\<close>

subsection \<open>Loops\<close>

text \<open>
  \<^verbatim>\<open>for (std::size_t i = i0; i < n; ++i) body\<close> over a state \<open>s\<close>; an error in the
  body leaves the loop.
\<close>

function for_loop :: "nat \<Rightarrow> nat \<Rightarrow> (nat \<Rightarrow> 's \<Rightarrow> error + 's) \<Rightarrow> 's \<Rightarrow> error + 's" where
  "for_loop i n body s =
     (if i < n
      then (case body i s of Inl e \<Rightarrow> Inl e | Inr s' \<Rightarrow> for_loop (Suc i) n body s')
      else Inr s)"
  by pat_completeness auto
termination
  by (relation "measure (\<lambda>(i, n, body, s). n - i)") auto

declare for_loop.simps [simp del]

subsection \<open>The free functions\<close>

text \<open>
  \<^verbatim>\<open>transform_matrix3d\<close>: a zero tensor of the input's extents, then one
  \<^verbatim>\<open>out_vol.set(z, y, x, f(in_vol.get(z, y, x)))\<close> per coordinate, z outermost.
\<close>

definition transform_step ::
  "(float_t \<Rightarrow> float_t) \<Rightarrow> matrix3d \<Rightarrow> nat \<Rightarrow> nat \<Rightarrow> nat \<Rightarrow> matrix3d \<Rightarrow> error + matrix3d" where
  "transform_step f in_vol z y x out_vol =
     (case matrix3d_get3 in_vol z y x of
        Inl e \<Rightarrow> Inl e
      | Inr v \<Rightarrow> matrix3d_set3 out_vol z y x (f v))"

definition transform_matrix3d :: "(float_t \<Rightarrow> float_t) \<Rightarrow> matrix3d \<Rightarrow> error + matrix3d" where
  "transform_matrix3d f in_vol =
     for_loop 0 (s_depth (m_size in_vol)) (\<lambda>z.
       for_loop 0 (s_height (m_size in_vol)) (\<lambda>y.
         for_loop 0 (s_width (m_size in_vol)) (\<lambda>x.
           transform_step f in_vol z y x)))
       (matrix3d_zeros \<lparr>s_depth = s_depth (m_size in_vol),
                        s_height = s_height (m_size in_vol),
                        s_width = s_width (m_size in_vol)\<rparr>)"

definition reshape_matrix3d :: "matrix3d \<Rightarrow> size3d \<Rightarrow> error + matrix3d" where
  "reshape_matrix3d in_vol out_size = matrix3d_new out_size (m_values in_vol)"

text \<open>
  \<^verbatim>\<open>matrix3d_min_max_pos\<close>: the four local variables of the scan are the state of the
  loops.
\<close>

record scan_state =
  result_min :: matrix3d_pos
  result_max :: matrix3d_pos
  value_max :: float_t
  value_min :: float_t

definition scan_init :: scan_state where
  "scan_init =
     \<lparr>result_min = pos 0 0 0, result_max = pos 0 0 0,
      value_max = numeric_limits_min, value_min = numeric_limits_max\<rparr>"

definition scan_update :: "nat \<Rightarrow> nat \<Rightarrow> nat \<Rightarrow> float_t \<Rightarrow> scan_state \<Rightarrow> scan_state" where
  "scan_update z y x current_value s =
     (let s1 = (if current_value > value_max s
                then s\<lparr>result_max := pos z y x, value_max := current_value\<rparr>
                else s)
      in if current_value < value_min s1
         then s1\<lparr>result_min := pos z y x, value_min := current_value\<rparr>
         else s1)"

definition scan_step :: "matrix3d \<Rightarrow> nat \<Rightarrow> nat \<Rightarrow> nat \<Rightarrow> scan_state \<Rightarrow> error + scan_state" where
  "scan_step vol z y x s =
     (case matrix3d_get3 vol z y x of
        Inl e \<Rightarrow> Inl e
      | Inr current_value \<Rightarrow> Inr (scan_update z y x current_value s))"

text \<open>The three nested loops of \<^verbatim>\<open>matrix3d_min_max_pos\<close>, from a given state of the locals.\<close>

definition scan_loops :: "matrix3d \<Rightarrow> scan_state \<Rightarrow> error + scan_state" where
  "scan_loops vol =
     for_loop 0 (s_depth (m_size vol)) (\<lambda>z.
       for_loop 0 (s_height (m_size vol)) (\<lambda>y.
         for_loop 0 (s_width (m_size vol)) (\<lambda>x.
           scan_step vol z y x)))"

definition matrix3d_min_max_pos :: "matrix3d \<Rightarrow> error + (matrix3d_pos \<times> matrix3d_pos)" where
  "matrix3d_min_max_pos vol =
     (case scan_loops vol scan_init of
        Inl e \<Rightarrow> Inl e
      | Inr s \<Rightarrow> Inr (result_min s, result_max s))"

definition matrix3d_max_pos :: "matrix3d \<Rightarrow> error + matrix3d_pos" where
  "matrix3d_max_pos vol =
     (case matrix3d_min_max_pos vol of Inl e \<Rightarrow> Inl e | Inr r \<Rightarrow> Inr (snd r))"

text \<open>The source takes \<^verbatim>\<open>.second\<close> here as well.\<close>

definition matrix3d_min_pos :: "matrix3d \<Rightarrow> error + matrix3d_pos" where
  "matrix3d_min_pos vol =
     (case matrix3d_min_max_pos vol of Inl e \<Rightarrow> Inl e | Inr r \<Rightarrow> Inr (snd r))"

definition matrix3d_min_max_value :: "matrix3d \<Rightarrow> error + (float_t \<times> float_t)" where
  "matrix3d_min_max_value vol =
     (case matrix3d_min_max_pos vol of
        Inl e \<Rightarrow> Inl e
      | Inr min_max_positions \<Rightarrow>
          (case matrix3d_get vol (fst min_max_positions) of
             Inl e \<Rightarrow> Inl e
           | Inr lo \<Rightarrow>
               (case matrix3d_get vol (snd min_max_positions) of
                  Inl e \<Rightarrow> Inl e
                | Inr hi \<Rightarrow> Inr (lo, hi))))"

definition matrix3d_max_value :: "matrix3d \<Rightarrow> error + float_t" where
  "matrix3d_max_value m =
     (case matrix3d_max_pos m of Inl e \<Rightarrow> Inl e | Inr p \<Rightarrow> matrix3d_get m p)"

definition matrix3d_min_value :: "matrix3d \<Rightarrow> error + float_t" where
  "matrix3d_min_value m =
     (case matrix3d_min_pos m of Inl e \<Rightarrow> Inl e | Inr p \<Rightarrow> matrix3d_get m p)"

text \<open>
  \<^verbatim>\<open>add_matrix3ds\<close>: asserts equal shapes (\<^verbatim>\<open>operator==\<close> of \<^verbatim>\<open>size3d\<close>, the equality
  of the three extents), then \<^verbatim>\<open>fplus::zip_with\<close>, which stops at the end of the
  shorter sequence, as \<open>zip\<close> does.
\<close>

definition add_matrix3ds :: "matrix3d \<Rightarrow> matrix3d \<Rightarrow> error + matrix3d" where
  "add_matrix3ds m1 m2 =
     (if m_size m1 = m_size m2
      then matrix3d_new (m_size m1) (map2 (+) (m_values m1) (m_values m2))
      else Inl AssertionFailed)"

definition multiply_matrix3d :: "matrix3d \<Rightarrow> float_t \<Rightarrow> error + matrix3d" where
  "multiply_matrix3d m factor = transform_matrix3d (\<lambda>x. factor * x) m"

definition divide_matrix3d :: "matrix3d \<Rightarrow> float_t \<Rightarrow> error + matrix3d" where
  "divide_matrix3d m divisor = multiply_matrix3d m (1 / divisor)"

definition sub_matrix3d :: "matrix3d \<Rightarrow> matrix3d \<Rightarrow> error + matrix3d" where
  "sub_matrix3d m1 m2 =
     (case multiply_matrix3d m2 (- 1) of
        Inl e \<Rightarrow> Inl e
      | Inr negated \<Rightarrow> add_matrix3ds m1 negated)"

definition abs_matrix3d_values :: "matrix3d \<Rightarrow> error + matrix3d" where
  "abs_matrix3d_values m = transform_matrix3d abs m"

definition abs_diff_matrix3ds :: "matrix3d \<Rightarrow> matrix3d \<Rightarrow> error + matrix3d" where
  "abs_diff_matrix3ds m1 m2 =
     (case sub_matrix3d m1 m2 of Inl e \<Rightarrow> Inl e | Inr d \<Rightarrow> abs_matrix3d_values d)"

subsection \<open>The class invariant and positions inside a shape\<close>

text \<open>The constructor's assertion, as a predicate on tensors.\<close>

definition matrix3d_inv :: "matrix3d \<Rightarrow> bool" where
  "matrix3d_inv m = (length (m_values m) = volume (m_size m))"

definition in_bounds :: "matrix3d \<Rightarrow> matrix3d_pos \<Rightarrow> bool" where
  "in_bounds m p =
     (p_z p < s_depth (m_size m) \<and> p_y p < s_height (m_size m) \<and> p_x p < s_width (m_size m))"

subsection \<open>Auxiliary definitions for the proofs\<close>

text \<open>
  The tensor that \<^verbatim>\<open>transform_matrix3d\<close> holds in \<^verbatim>\<open>out_vol\<close> after \<open>k\<close> executions of
  the innermost loop body: the first \<open>k\<close> elements are transformed, the rest are still
  the zeros of the constructor.
\<close>

definition transform_progress :: "(float_t \<Rightarrow> float_t) \<Rightarrow> matrix3d \<Rightarrow> nat \<Rightarrow> matrix3d" where
  "transform_progress f m k =
     \<lparr>m_size = m_size m,
      m_values = map f (take k (m_values m)) @ replicate (length (m_values m) - k) 0\<rparr>"

text \<open>
  The position of the shape that has the linear index \<open>i\<close>: the index split again into
  its three coordinates. \<open>alias_of m p\<close> is the position that shares the index of \<open>p\<close>.
\<close>

definition pos_of_index :: "matrix3d \<Rightarrow> nat \<Rightarrow> matrix3d_pos" where
  "pos_of_index m i =
     pos (i div s_width (m_size m) div s_height (m_size m))
         (i div s_width (m_size m) mod s_height (m_size m))
         (i mod s_width (m_size m))"

definition alias_of :: "matrix3d \<Rightarrow> matrix3d_pos \<Rightarrow> matrix3d_pos" where
  "alias_of m p = pos_of_index m (idx m p)"




text \<open>
  What an operation that can fail says about the invariant: \<open>yields_inv\<close> when every
  tensor it returns satisfies it, \<open>produces_inv\<close> when it moreover returns one.
\<close>

definition yields_inv :: "error + matrix3d \<Rightarrow> bool" where
  "yields_inv r = (case r of Inl e \<Rightarrow> True | Inr t \<Rightarrow> matrix3d_inv t)"

definition produces_inv :: "error + matrix3d \<Rightarrow> bool" where
  "produces_inv r = (case r of Inl e \<Rightarrow> False | Inr t \<Rightarrow> matrix3d_inv t)"

text \<open>The tensor of the spec's example: shape (1, 2, 2) over the data 1, 2, 3, 4.\<close>

definition example_2x2 :: matrix3d where
  "example_2x2 = \<lparr>m_size = \<lparr>s_depth = 1, s_height = 2, s_width = 2\<rparr>, m_values = [1, 2, 3, 4]\<rparr>"

text \<open>The spec's reshape example: shape (2, 1, 1) over the data 5, 6.\<close>

definition example_column :: matrix3d where
  "example_column = \<lparr>m_size = \<lparr>s_depth = 2, s_height = 1, s_width = 1\<rparr>, m_values = [5, 6]\<rparr>"

text \<open>A tensor without a positive element: shape (1, 1, 2) over the data -2, -1.\<close>

definition example_negative :: matrix3d where
  "example_negative =
     \<lparr>m_size = \<lparr>s_depth = 1, s_height = 1, s_width = 2\<rparr>, m_values = [- 2, - 1]\<rparr>"

text \<open>An empty tensor: shape (2, 0, 3) over no data.\<close>

definition example_empty :: matrix3d where
  "example_empty = \<lparr>m_size = \<lparr>s_depth = 2, s_height = 0, s_width = 3\<rparr>, m_values = []\<rparr>"

text \<open>A second tensor of the shape (1, 2, 2), over the data 10, 20, 30, 40.\<close>

definition example_tens :: matrix3d where
  "example_tens =
     \<lparr>m_size = \<lparr>s_depth = 1, s_height = 2, s_width = 2\<rparr>, m_values = [10, 20, 30, 40]\<rparr>"

section \<open>Loops\<close>

lemma for_loop_done: "n \<le> i \<Longrightarrow> for_loop i n body s = Inr s"
  by (simp add: for_loop.simps)

lemma for_loop_step:
  "i < n \<Longrightarrow> for_loop i n body s =
     (case body i s of Inl e \<Rightarrow> Inl e | Inr s' \<Rightarrow> for_loop (Suc i) n body s')"
  by (subst for_loop.simps) simp

lemma for_loop_chain:
  assumes "i \<le> n"
    and "\<And>j. i \<le> j \<Longrightarrow> j < n \<Longrightarrow> body j (g j) = Inr (g (Suc j))"
  shows "for_loop i n body (g i) = Inr (g n)"
  using assms
proof (induction "n - i" arbitrary: i)
  case 0
  then show ?case by (simp add: for_loop_done)
next
  case (Suc k)
  then have lt: "i < n" by simp
  have "for_loop (Suc i) n body (g (Suc i)) = Inr (g n)"
    using Suc.hyps(1)[of "Suc i"] Suc.hyps(2) Suc.prems lt by simp
  then show ?case
    using lt Suc.prems(2)[of i] by (simp add: for_loop_step)
qed

lemma for_loop_preserves:
  assumes "for_loop i n body s = Inr r" and "P s"
    and "\<And>j t t'. P t \<Longrightarrow> body j t = Inr t' \<Longrightarrow> P t'"
  shows "P r"
  using assms(1,2)
proof (induction "n - i" arbitrary: i s)
  case 0
  then show ?case by (simp add: for_loop_done)
next
  case (Suc k)
  then have lt: "i < n" by simp
  then obtain s' where b: "body i s = Inr s'" and rest: "for_loop (Suc i) n body s' = Inr r"
    using Suc.prems(1) by (auto simp: for_loop_step split: sum.splits)
  have "P s'" using assms(3)[OF Suc.prems(2) b] .
  moreover have "k = n - Suc i" using Suc.hyps(2) by simp
  ultimately show ?case using Suc.hyps(1) rest by blast
qed

text \<open>Three nested loops that advance one counter over the row-major order.\<close>

lemma row_bound:
  fixes y x h w :: nat
  assumes "y < h" "x < w"
  shows "y * w + x < h * w"
proof -
  have "y * w + x < y * w + w" using assms(2) by simp
  also have "\<dots> = Suc y * w" by simp
  also have "\<dots> \<le> h * w" using assms(1) by (intro mult_le_mono1) simp
  finally show ?thesis .
qed

lemma linear_index_bound:
  fixes z y x d h w :: nat
  assumes "z < d" "y < h" "x < w"
  shows "z * h * w + y * w + x < d * h * w"
proof -
  have "z * (h * w) + (y * w + x) < d * (h * w)"
    using row_bound[OF assms(1) row_bound[OF assms(2,3)]] .
  then show ?thesis by (simp add: mult.assoc add.assoc)
qed

lemma nested_loops_chain:
  assumes step: "\<And>z y x. z < d \<Longrightarrow> y < h \<Longrightarrow> x < w \<Longrightarrow>
     body z y x (G (z * h * w + y * w + x)) = Inr (G (Suc (z * h * w + y * w + x)))"
  shows "for_loop 0 d (\<lambda>z. for_loop 0 h (\<lambda>y. for_loop 0 w (\<lambda>x. body z y x))) (G 0)
           = Inr (G (d * h * w))"
proof -
  have inner: "for_loop 0 w (\<lambda>x. body z y x) (G (z * h * w + y * w))
                 = Inr (G (z * h * w + Suc y * w))" if "z < d" "y < h" for z y
  proof -
    have "for_loop 0 w (\<lambda>x. body z y x) ((\<lambda>x. G (z * h * w + y * w + x)) 0)
            = Inr ((\<lambda>x. G (z * h * w + y * w + x)) w)"
      by (rule for_loop_chain) (simp_all add: step that)
    moreover have "z * h * w + y * w + w = z * h * w + Suc y * w" by simp
    ultimately show ?thesis by simp
  qed
  have middle: "for_loop 0 h (\<lambda>y. for_loop 0 w (\<lambda>x. body z y x)) (G (z * h * w))
                  = Inr (G (Suc z * h * w))" if "z < d" for z
  proof -
    have "for_loop 0 h (\<lambda>y. for_loop 0 w (\<lambda>x. body z y x)) ((\<lambda>y. G (z * h * w + y * w)) 0)
            = Inr ((\<lambda>y. G (z * h * w + y * w)) h)"
      by (rule for_loop_chain) (simp_all add: inner that)
    moreover have "z * h * w + h * w = Suc z * h * w" by (simp add: algebra_simps)
    ultimately show ?thesis by simp
  qed
  have "for_loop 0 d (\<lambda>z. for_loop 0 h (\<lambda>y. for_loop 0 w (\<lambda>x. body z y x)))
          ((\<lambda>z. G (z * h * w)) 0) = Inr ((\<lambda>z. G (z * h * w)) d)"
    by (rule for_loop_chain) (simp_all add: middle)
  then show ?thesis by simp
qed

section \<open>Elementwise transform\<close>

lemma fill_next:
  assumes "k < length vs"
  shows "(map f (take k vs) @ replicate (length vs - k) c)[k := f (vs ! k)]
           = map f (take (Suc k) vs) @ replicate (length vs - Suc k) c"
proof -
  have len: "length (map f (take k vs)) = k" using assms by simp
  have "length vs - k = Suc (length vs - Suc k)" using assms by simp
  then have "(map f (take k vs) @ replicate (length vs - k) c)[k := f (vs ! k)]
               = map f (take k vs) @ (f (vs ! k) # replicate (length vs - Suc k) c)"
    using len by (simp add: list_update_append)
  also have "\<dots> = map f (take (Suc k) vs) @ replicate (length vs - Suc k) c"
    using assms by (simp add: take_Suc_conv_app_nth)
  finally show ?thesis .
qed

lemma transform_step_progress:
  assumes inv: "matrix3d_inv m"
    and b: "z < s_depth (m_size m)" "y < s_height (m_size m)" "x < s_width (m_size m)"
  shows "transform_step f m z y x
           (transform_progress f m (z * s_height (m_size m) * s_width (m_size m) + y * s_width (m_size m) + x))
         = Inr (transform_progress f m
                 (Suc (z * s_height (m_size m) * s_width (m_size m) + y * s_width (m_size m) + x)))"
proof -
  let ?k = "z * s_height (m_size m) * s_width (m_size m) + y * s_width (m_size m) + x"
  have k: "?k < length (m_values m)"
    using linear_index_bound[OF b] inv by (simp add: matrix3d_inv_def volume_def)
  have get: "matrix3d_get3 m z y x = Inr (m_values m ! ?k)"
    using k by (simp add: matrix3d_get3_def matrix3d_get_def idx_def pos_def)
  have "matrix3d_set3 (transform_progress f m ?k) z y x (f (m_values m ! ?k))
          = Inr (transform_progress f m (Suc ?k))"
    using k fill_next[OF k, of f 0]
    by (simp add: matrix3d_set3_def matrix3d_set_def idx_def pos_def transform_progress_def)
  then show ?thesis by (simp add: transform_step_def get)
qed

lemma transform_matrix3d_map:
  assumes "matrix3d_inv m"
  shows "transform_matrix3d f m = Inr \<lparr>m_size = m_size m, m_values = map f (m_values m)\<rparr>"
proof -
  let ?d = "s_depth (m_size m)" and ?h = "s_height (m_size m)" and ?w = "s_width (m_size m)"
  have start: "matrix3d_zeros \<lparr>s_depth = ?d, s_height = ?h, s_width = ?w\<rparr>
                 = transform_progress f m 0"
    using assms by (simp add: matrix3d_zeros_def transform_progress_def matrix3d_inv_def volume_def)
  have stop: "transform_progress f m (?d * ?h * ?w)
                = \<lparr>m_size = m_size m, m_values = map f (m_values m)\<rparr>"
    using assms by (simp add: transform_progress_def matrix3d_inv_def volume_def)
  have "for_loop 0 ?d (\<lambda>z. for_loop 0 ?h (\<lambda>y. for_loop 0 ?w (\<lambda>x. transform_step f m z y x)))
          (transform_progress f m 0) = Inr (transform_progress f m (?d * ?h * ?w))"
    by (rule nested_loops_chain) (rule transform_step_progress[OF assms])
  then show ?thesis
    unfolding transform_matrix3d_def start stop .
qed

lemma transform_matrix3d_inv:
  assumes "transform_matrix3d f m = Inr r"
  shows "matrix3d_inv r \<and> m_size r = m_size m"
proof -
  let ?P = "\<lambda>t. matrix3d_inv t \<and> m_size t = m_size m"
  have step: "?P t'" if "?P t" "transform_step f m z y x t = Inr t'" for z y x t t'
    using that by (auto simp: transform_step_def matrix3d_set3_def matrix3d_set_def
        matrix3d_inv_def split: sum.splits if_splits)
  have inner: "?P t'" if "?P t" "for_loop 0 (s_width (m_size m)) (\<lambda>x. transform_step f m z y x) t = Inr t'"
    for z y t t'
    using for_loop_preserves[OF that(2), of ?P] that(1) step by blast
  have middle: "?P t'" if "?P t"
    "for_loop 0 (s_height (m_size m)) (\<lambda>y. for_loop 0 (s_width (m_size m)) (\<lambda>x. transform_step f m z y x)) t = Inr t'"
    for z t t'
    using for_loop_preserves[OF that(2), of ?P] that(1) inner by blast
  have "?P (matrix3d_zeros \<lparr>s_depth = s_depth (m_size m), s_height = s_height (m_size m),
                             s_width = s_width (m_size m)\<rparr>)"
    by (simp add: matrix3d_zeros_def matrix3d_inv_def)
  then show ?thesis
    using for_loop_preserves[OF assms[unfolded transform_matrix3d_def], of ?P] middle by blast
qed

section \<open>Linearization\<close>

lemma linear_index_inj:
  fixes z y x z' y' x' h w :: nat
  assumes eq: "z * h * w + y * w + x = z' * h * w + y' * w + x'"
    and "y < h" "x < w" "y' < h" "x' < w"
  shows "z = z' \<and> y = y' \<and> x = x'"
proof -
  have e1: "(z * h + y) * w + x = (z' * h + y') * w + x'"
    using eq by (simp add: algebra_simps)
  have "((z * h + y) * w + x) mod w = x" "((z' * h + y') * w + x') mod w = x'"
    using assms(3,5) by simp_all
  then have x: "x = x'" using e1 by simp
  have "((z * h + y) * w + x) div w = z * h + y" "((z' * h + y') * w + x') div w = z' * h + y'"
    using assms(3,5) by simp_all
  then have e2: "z * h + y = z' * h + y'" using e1 by simp
  have "(z * h + y) mod h = y" "(z' * h + y') mod h = y'"
    using assms(2,4) by simp_all
  then have y: "y = y'" using e2 by simp
  have "(z * h + y) div h = z" "(z' * h + y') div h = z'"
    using assms(2,4) by simp_all
  then have "z = z'" using e2 by simp
  with x y show ?thesis by simp
qed

lemma idx_inj:
  assumes "in_bounds m p" "in_bounds m q" "idx m p = idx m q"
  shows "p = q"
  using linear_index_inj[of "p_z p" "s_height (m_size m)" "s_width (m_size m)" "p_y p" "p_x p"
      "p_z q" "p_y q" "p_x q"] assms
  by (simp add: in_bounds_def idx_def)

lemma idx_in_range:
  assumes "matrix3d_inv m" "in_bounds m p"
  shows "idx m p < length (m_values m)"
  using assms linear_index_bound[of "p_z p" "s_depth (m_size m)" "p_y p" "s_height (m_size m)"
      "p_x p" "s_width (m_size m)"]
  by (simp add: matrix3d_inv_def in_bounds_def idx_def volume_def)

text \<open>
  Claim C5. In a tensor that satisfies the class invariant and has the extents
  (d, h, w), a position (z, y, x) with \<open>z < d\<close>, \<open>y < h\<close> and \<open>x < w\<close> has the linear
  index \<open>z * h * w + y * w + x\<close>; that index lies inside the backing vector, \<^verbatim>\<open>get\<close>
  reads the element stored there and \<^verbatim>\<open>set\<close> writes it.
\<close>

theorem linearization_row_major:
  assumes "matrix3d_inv m"
    and "m_size m = \<lparr>s_depth = d, s_height = h, s_width = w\<rparr>"
    and "z < d" "y < h" "x < w"
  shows "z * h * w + y * w + x < length (m_values m) \<and>
         idx m (pos z y x) = z * h * w + y * w + x \<and>
         matrix3d_get3 m z y x = Inr (m_values m ! (z * h * w + y * w + x)) \<and>
         matrix3d_set3 m z y x v =
           Inr (m\<lparr>m_values := (m_values m)[z * h * w + y * w + x := v]\<rparr>)"
proof -
  have i: "idx m (pos z y x) = z * h * w + y * w + x"
    using assms(2) by (simp add: idx_def pos_def)
  have "in_bounds m (pos z y x)"
    using assms(2-5) by (simp add: in_bounds_def pos_def)
  then have "idx m (pos z y x) < length (m_values m)"
    using assms(1) by (rule idx_in_range[rotated])
  then show ?thesis
    using i by (simp add: matrix3d_get3_def matrix3d_get_def matrix3d_set3_def matrix3d_set_def)
qed

theorem linearization_row_major_witness:
  "matrix3d_inv example_2x2 \<and>
   m_size example_2x2 = \<lparr>s_depth = 1, s_height = 2, s_width = 2\<rparr> \<and>
   idx example_2x2 (pos 0 1 0) = 2 \<and>
   matrix3d_get3 example_2x2 0 1 0 = Inr 3 \<and>
   matrix3d_set3 example_2x2 0 1 0 9 = Inr (example_2x2\<lparr>m_values := [1, 2, 9, 4]\<rparr>)"
proof -
  have inv: "matrix3d_inv example_2x2"
    by (simp add: matrix3d_inv_def example_2x2_def volume_def)
  have sz: "m_size example_2x2 = \<lparr>s_depth = 1, s_height = 2, s_width = 2\<rparr>"
    by (simp add: example_2x2_def)
  show ?thesis
    using inv sz linearization_row_major[OF inv sz, of 0 1 0 9]
    by (simp add: example_2x2_def)
qed

text \<open>
  Claim C6. After \<^verbatim>\<open>set\<close> of the value \<open>v\<close> at a position \<open>p\<close> inside the shape, \<^verbatim>\<open>get\<close> at
  \<open>p\<close> returns \<open>v\<close>, and \<^verbatim>\<open>get\<close> at every other position inside the shape returns what
  it returned before.
\<close>

theorem set_then_get:
  assumes "matrix3d_inv m" "in_bounds m p"
  shows "\<exists>m'. matrix3d_set m p v = Inr m' \<and>
           matrix3d_get m' p = Inr v \<and>
           (\<forall>q. in_bounds m q \<and> q \<noteq> p \<longrightarrow> matrix3d_get m' q = matrix3d_get m q)"
proof -
  let ?m' = "m\<lparr>m_values := (m_values m)[idx m p := v]\<rparr>"
  have r: "idx m p < length (m_values m)" using assms by (rule idx_in_range)
  have same_idx: "idx ?m' q = idx m q" for q by (simp add: idx_def)
  have "matrix3d_set m p v = Inr ?m'" using r by (simp add: matrix3d_set_def)
  moreover have "matrix3d_get ?m' p = Inr v"
    using r by (simp add: matrix3d_get_def same_idx)
  moreover have "matrix3d_get ?m' q = matrix3d_get m q" if "in_bounds m q" "q \<noteq> p" for q
  proof -
    have "idx m q \<noteq> idx m p" using idx_inj[OF that(1) assms(2)] that(2) by blast
    then show ?thesis by (simp add: matrix3d_get_def same_idx)
  qed
  ultimately show ?thesis by blast
qed

theorem set_then_get_witness:
  "matrix3d_inv example_2x2 \<and> in_bounds example_2x2 (pos 0 1 0) \<and>
   (\<exists>m'. matrix3d_set example_2x2 (pos 0 1 0) 9 = Inr m' \<and>
         matrix3d_get m' (pos 0 1 0) = Inr 9 \<and>
         matrix3d_get m' (pos 0 0 1) = Inr 2)"
proof -
  have inv: "matrix3d_inv example_2x2"
    by (simp add: matrix3d_inv_def example_2x2_def volume_def)
  have inb: "in_bounds example_2x2 (pos 0 1 0)"
    by (simp add: in_bounds_def example_2x2_def pos_def)
  have other: "in_bounds example_2x2 (pos 0 0 1) \<and> pos 0 0 1 \<noteq> pos 0 1 0"
    by (simp add: in_bounds_def example_2x2_def pos_def)
  have before: "matrix3d_get example_2x2 (pos 0 0 1) = Inr 2"
    by (simp add: matrix3d_get_def idx_def example_2x2_def pos_def)
  from set_then_get[OF inv inb, of 9] obtain m' where
    "matrix3d_set example_2x2 (pos 0 1 0) 9 = Inr m'"
    "matrix3d_get m' (pos 0 1 0) = Inr 9"
    "\<forall>q. in_bounds example_2x2 q \<and> q \<noteq> pos 0 1 0 \<longrightarrow>
         matrix3d_get m' q = matrix3d_get example_2x2 q"
    by blast
  then show ?thesis using inv inb other before by metis
qed

lemma idx_pos:
  "idx m (pos z y x) = z * s_height (m_size m) * s_width (m_size m) + y * s_width (m_size m) + x"
  by (simp add: idx_def pos_def)

text \<open>
  The index in \<^verbatim>\<open>std::size_t\<close> arithmetic is the natural index modulo \<open>2 ^ 64\<close>, so the
  two agree on every index inside a vector.
\<close>

lemma unat_idx_size_t:
  "unat (idx_size_t h w z y x)
     = (unat z * unat h * unat w + unat y * unat w + unat x) mod 2 ^ 64"
proof -
  have e: "idx_size_t h w z y x
             = word_of_nat (unat z * unat h * unat w + unat y * unat w + unat x)"
    by (simp add: idx_size_t_def)
  show ?thesis unfolding e unat_of_nat by simp
qed

lemma idx_size_t_in_vector:
  assumes "s_height (m_size m) = unat h" "s_width (m_size m) = unat w"
    and "idx m (pos (unat z) (unat y) (unat x)) < length (m_values m)"
    and "length (m_values m) < 2 ^ 64"
  shows "unat (idx_size_t h w z y x) = idx m (pos (unat z) (unat y) (unat x))"
  using assms by (simp add: unat_idx_size_t idx_pos)

lemma delinearize:
  fixes i h w :: nat
  shows "i div w div h * h * w + i div w mod h * w + i mod w = i"
proof -
  have "i div w div h * h * w + i div w mod h * w = (i div w div h * h + i div w mod h) * w"
    by (simp only: add_mult_distrib)
  also have "\<dots> = i div w * w" by (simp only: div_mult_mod_eq)
  finally have "i div w div h * h * w + i div w mod h * w + i mod w = i div w * w + i mod w"
    by simp
  then show ?thesis by (simp only: div_mult_mod_eq)
qed

lemma pos_of_index_in_bounds:
  assumes "matrix3d_inv m" "i < length (m_values m)"
  shows "in_bounds m (pos_of_index m i) \<and> idx m (pos_of_index m i) = i"
proof -
  define d h w where "d = s_depth (m_size m)" and "h = s_height (m_size m)"
    and "w = s_width (m_size m)"
  have lt: "i < d * h * w"
    using assms by (simp add: matrix3d_inv_def volume_def d_def h_def w_def)
  have w: "0 < w" using lt by (cases "w = 0") simp_all
  have h: "0 < h" using lt by (cases "h = 0") simp_all
  have "i div w < d * h"
    using lt w by (simp add: less_mult_imp_div_less)
  then have z: "i div w div h < d"
    using h by (simp add: less_mult_imp_div_less)
  have "idx m (pos_of_index m i) = i"
    unfolding pos_of_index_def idx_pos by (rule delinearize)
  then show ?thesis
    using z w h by (simp add: in_bounds_def pos_of_index_def pos_def d_def h_def w_def)
qed

lemma alias_of_in_bounds:
  assumes "matrix3d_inv m" "idx m p < length (m_values m)"
  shows "in_bounds m (alias_of m p) \<and> idx m (alias_of m p) = idx m p"
  unfolding alias_of_def using assms by (rule pos_of_index_in_bounds)

text \<open>
  Claim C10. \<^verbatim>\<open>get\<close> and \<^verbatim>\<open>set\<close> do not compare the coordinates with the shape. A
  position outside the shape whose linear index is still inside the backing vector is
  served without an error: \<^verbatim>\<open>get\<close> returns, and \<^verbatim>\<open>set\<close> overwrites, the element of a
  different position, one inside the shape, that has the same linear index. The witness
  is the position (0, 0, width) of a tensor of height 2, which shares its element with
  (0, 1, 0).
\<close>

theorem unchecked_coordinates_alias:
  assumes "matrix3d_inv m" "\<not> in_bounds m p" "idx m p < length (m_values m)"
  shows "in_bounds m (alias_of m p) \<and> alias_of m p \<noteq> p \<and>
         matrix3d_get m p = Inr (m_values m ! idx m (alias_of m p)) \<and>
         matrix3d_get m p = matrix3d_get m (alias_of m p) \<and>
         matrix3d_set m p v = Inr (m\<lparr>m_values := (m_values m)[idx m (alias_of m p) := v]\<rparr>) \<and>
         matrix3d_set m p v = matrix3d_set m (alias_of m p) v"
proof -
  have a: "in_bounds m (alias_of m p)" "idx m (alias_of m p) = idx m p"
    using alias_of_in_bounds[OF assms(1,3)] by simp_all
  have "alias_of m p \<noteq> p" using a(1) assms(2) by auto
  then show ?thesis
    using a assms(3) by (simp add: matrix3d_get_def matrix3d_set_def)
qed

theorem unchecked_coordinates_alias_witness:
  "matrix3d_inv example_2x2 \<and> \<not> in_bounds example_2x2 (pos 0 0 2) \<and>
   alias_of example_2x2 (pos 0 0 2) = pos 0 1 0 \<and>
   matrix3d_get example_2x2 (pos 0 0 2) = Inr 3 \<and>
   matrix3d_get example_2x2 (pos 0 1 0) = Inr 3 \<and>
   matrix3d_set example_2x2 (pos 0 0 2) 9 = Inr (example_2x2\<lparr>m_values := [1, 2, 9, 4]\<rparr>) \<and>
   matrix3d_set example_2x2 (pos 0 1 0) 9 = Inr (example_2x2\<lparr>m_values := [1, 2, 9, 4]\<rparr>)"
proof -
  have inv: "matrix3d_inv example_2x2"
    by (simp add: matrix3d_inv_def example_2x2_def volume_def)
  have out: "\<not> in_bounds example_2x2 (pos 0 0 2)"
    by (simp add: in_bounds_def example_2x2_def pos_def)
  have i: "idx example_2x2 (pos 0 0 2) = 2"
    by (simp add: idx_def example_2x2_def pos_def)
  have r: "idx example_2x2 (pos 0 0 2) < length (m_values example_2x2)"
    by (simp add: i) (simp add: example_2x2_def)
  have al: "alias_of example_2x2 (pos 0 0 2) = pos 0 1 0"
    by (simp add: alias_of_def pos_of_index_def i) (simp add: example_2x2_def)
  have j: "idx example_2x2 (pos 0 1 0) = 2"
    by (simp add: idx_def example_2x2_def pos_def)
  have v: "m_values example_2x2 ! 2 = 3" "(m_values example_2x2)[2 := 9] = [1, 2, 9, 4]"
    by (simp_all add: example_2x2_def)
  note c = unchecked_coordinates_alias[OF inv out r, of 9, unfolded al j v]
  from c have g: "matrix3d_get example_2x2 (pos 0 0 2) = Inr 3"
    and s: "matrix3d_set example_2x2 (pos 0 0 2) 9 = Inr (example_2x2\<lparr>m_values := [1, 2, 9, 4]\<rparr>)"
    by blast+
  from c have e: "matrix3d_get example_2x2 (pos 0 0 2) = matrix3d_get example_2x2 (pos 0 1 0)"
    "matrix3d_set example_2x2 (pos 0 0 2) 9 = matrix3d_set example_2x2 (pos 0 1 0) 9"
    by blast+
  show ?thesis using inv out al g s e[symmetric] by simp
qed

section \<open>Reshape\<close>

text \<open>
  Claim C4. For a tensor \<open>t\<close> that satisfies the class invariant and a shape \<open>s2\<close> of
  the same volume, \<^verbatim>\<open>reshape_matrix3d\<close> returns a tensor of shape \<open>s2\<close> over the same
  flat sequence (element \<open>i\<close> stays element \<open>i\<close>), and reshaping that tensor to the
  shape of \<open>t\<close> returns \<open>t\<close>.
\<close>

theorem reshape_keeps_flat_sequence:
  assumes "matrix3d_inv t" "volume s2 = volume (m_size t)"
  shows "\<exists>r. reshape_matrix3d t s2 = Inr r \<and> m_size r = s2 \<and>
           m_values r = m_values t \<and>
           (\<forall>i < length (m_values t). m_values r ! i = m_values t ! i) \<and>
           reshape_matrix3d r (m_size t) = Inr t"
proof -
  let ?r = "\<lparr>m_size = s2, m_values = m_values t\<rparr>"
  have len: "length (m_values t) = volume (m_size t)"
    using assms(1) by (simp add: matrix3d_inv_def)
  have "reshape_matrix3d t s2 = Inr ?r"
    using assms(2) len by (simp add: reshape_matrix3d_def matrix3d_new_def)
  moreover have "reshape_matrix3d ?r (m_size t) = Inr t"
    using len by (simp add: reshape_matrix3d_def matrix3d_new_def)
  ultimately show ?thesis by simp
qed

theorem reshape_keeps_flat_sequence_witness:
  "matrix3d_inv example_column \<and>
   volume \<lparr>s_depth = 1, s_height = 1, s_width = 2\<rparr> = volume (m_size example_column) \<and>
   (\<exists>r. reshape_matrix3d example_column \<lparr>s_depth = 1, s_height = 1, s_width = 2\<rparr> = Inr r \<and>
        m_values r = [5, 6] \<and>
        reshape_matrix3d r \<lparr>s_depth = 2, s_height = 1, s_width = 1\<rparr> = Inr example_column)"
proof -
  have inv: "matrix3d_inv example_column"
    by (simp add: matrix3d_inv_def example_column_def volume_def)
  have vol: "volume \<lparr>s_depth = 1, s_height = 1, s_width = 2\<rparr> = volume (m_size example_column)"
    by (simp add: example_column_def volume_def)
  have "m_values example_column = [5, 6]"
    "m_size example_column = \<lparr>s_depth = 2, s_height = 1, s_width = 1\<rparr>"
    by (simp_all add: example_column_def)
  then show ?thesis
    using inv vol reshape_keeps_flat_sequence[OF inv vol] by auto
qed

section \<open>The search for the minimum and the maximum\<close>

subsection \<open>The empty tensor\<close>

lemma for_loop_skip:
  assumes "\<And>j t. body j t = Inr t"
  shows "for_loop i n body s = Inr s"
proof (cases "i \<le> n")
  case True
  then show ?thesis
    using for_loop_chain[of i n body "\<lambda>_. s"] assms by simp
next
  case False
  then show ?thesis by (simp add: for_loop_done)
qed

lemma scan_loops_empty:
  assumes "volume (m_size vol) = 0"
  shows "scan_loops vol s = Inr s"
proof -
  consider "s_depth (m_size vol) = 0" | "s_height (m_size vol) = 0" | "s_width (m_size vol) = 0"
    using assms by (auto simp: volume_def)
  then show ?thesis
  proof cases
    case 1
    then show ?thesis by (simp add: scan_loops_def for_loop_done)
  next
    case 2
    then show ?thesis by (simp add: scan_loops_def for_loop_done for_loop_skip)
  next
    case 3
    then show ?thesis by (simp add: scan_loops_def for_loop_done for_loop_skip)
  qed
qed

text \<open>
  Claim C9. When the volume of the shape is 0, the loops of \<^verbatim>\<open>matrix3d_min_max_pos\<close>
  leave the locals as they were initialised, and the function returns the pair
  ((0, 0, 0), (0, 0, 0)), although (0, 0, 0) is no position of the shape and
  \<^verbatim>\<open>get\<close> there is an access outside the (empty) vector.
\<close>

theorem min_max_pos_of_empty:
  assumes "volume (m_size vol) = 0"
  shows "scan_loops vol scan_init = Inr scan_init \<and>
         matrix3d_min_max_pos vol = Inr (pos 0 0 0, pos 0 0 0) \<and>
         \<not> in_bounds vol (pos 0 0 0) \<and>
         (matrix3d_inv vol \<longrightarrow> matrix3d_get vol (pos 0 0 0) = Inl OutOfRange)"
proof -
  have "\<not> in_bounds vol (pos 0 0 0)"
    using assms by (auto simp: in_bounds_def volume_def)
  moreover have "matrix3d_get vol (pos 0 0 0) = Inl OutOfRange" if "matrix3d_inv vol"
    using that assms by (simp add: matrix3d_get_def matrix3d_inv_def)
  ultimately show ?thesis
    using scan_loops_empty[OF assms]
    by (simp add: matrix3d_min_max_pos_def scan_init_def)
qed

theorem min_max_pos_of_empty_witness:
  "volume (m_size example_empty) = 0 \<and> matrix3d_inv example_empty \<and>
   matrix3d_min_max_pos example_empty = Inr (pos 0 0 0, pos 0 0 0) \<and>
   matrix3d_get example_empty (pos 0 0 0) = Inl OutOfRange"
proof -
  have v: "volume (m_size example_empty) = 0"
    by (simp add: example_empty_def volume_def)
  have inv: "matrix3d_inv example_empty"
    by (simp add: matrix3d_inv_def example_empty_def volume_def)
  show ?thesis
    using v inv min_max_pos_of_empty[OF v] by simp
qed

subsection \<open>The scan visits the flat sequence in its order\<close>








subsection \<open>The scan on the examples\<close>

lemma scan_example_2x2: "scan_loops example_2x2 scan_init =
  Inr \<lparr>result_min = pos 0 0 0, result_max = pos 0 1 1, value_max = 4, value_min = 1\<rparr>"
  by (simp add: scan_loops_def example_2x2_def for_loop.simps scan_step_def scan_update_def
      matrix3d_get3_def matrix3d_get_def idx_def pos_def scan_init_def numeric_limits_min_def
      numeric_limits_max_def Let_def)

lemma scan_example_negative: "scan_loops example_negative scan_init =
  Inr \<lparr>result_min = pos 0 0 0, result_max = pos 0 0 0,
       value_max = numeric_limits_min, value_min = - 2\<rparr>"
  by (simp add: scan_loops_def example_negative_def for_loop.simps scan_step_def scan_update_def
      matrix3d_get3_def matrix3d_get_def idx_def pos_def scan_init_def numeric_limits_min_def
      numeric_limits_max_def Let_def)




text \<open>
  Claim C3, evaluated on the code. On the tensor of shape (1, 2, 2) over 1, 2, 3, 4:
  \<^verbatim>\<open>get(0,0,0)\<close> is 1, \<^verbatim>\<open>get(0,1,1)\<close> is 4, \<^verbatim>\<open>matrix3d_max_value\<close> is 4 at
  \<^verbatim>\<open>matrix3d_max_pos\<close> (0, 1, 1); but \<^verbatim>\<open>matrix3d_min_value\<close> is 4 and
  \<^verbatim>\<open>matrix3d_min_pos\<close> is (0, 1, 1), not 1 at (0, 0, 0), which
  \<^verbatim>\<open>matrix3d_min_max_value\<close> does find.
\<close>

theorem example_2x2_min_value_is_max:
  "matrix3d_get3 example_2x2 0 0 0 = Inr 1 \<and>
   matrix3d_get3 example_2x2 0 1 1 = Inr 4 \<and>
   matrix3d_max_value example_2x2 = Inr 4 \<and>
   matrix3d_max_pos example_2x2 = Inr (pos 0 1 1) \<and>
   matrix3d_min_value example_2x2 = Inr 4 \<and>
   matrix3d_min_pos example_2x2 = Inr (pos 0 1 1) \<and>
   matrix3d_min_max_value example_2x2 = Inr (1, 4)"
proof -
  have g: "matrix3d_get example_2x2 (pos 0 0 0) = Inr 1"
    "matrix3d_get example_2x2 (pos 0 1 1) = Inr 4"
    by (simp_all add: matrix3d_get_def idx_def pos_def example_2x2_def)
  have mm: "matrix3d_min_max_pos example_2x2 = Inr (pos 0 0 0, pos 0 1 1)"
    by (simp add: matrix3d_min_max_pos_def scan_example_2x2)
  have p: "matrix3d_max_pos example_2x2 = Inr (pos 0 1 1)"
    "matrix3d_min_pos example_2x2 = Inr (pos 0 1 1)"
    by (simp_all add: matrix3d_max_pos_def matrix3d_min_pos_def mm)
  have "matrix3d_max_value example_2x2 = Inr 4" "matrix3d_min_value example_2x2 = Inr 4"
    using p g by (simp_all add: matrix3d_max_value_def matrix3d_min_value_def)
  moreover have "matrix3d_min_max_value example_2x2 = Inr (1, 4)"
    using mm g by (simp add: matrix3d_min_max_value_def)
  ultimately show ?thesis using g p by (simp add: matrix3d_get3_def)
qed

text \<open>
  Claim C1, evaluated on the code. On the tensor of shape (1, 1, 2) over -2, -1 the
  maximum -1 is at (0, 0, 1), but no element is greater than the initial
  \<^verbatim>\<open>value_max\<close>, the positive \<^verbatim>\<open>numeric_limits<float_t>::min()\<close>: \<^verbatim>\<open>result_max\<close> is
  never assigned, \<^verbatim>\<open>matrix3d_min_max_pos\<close> returns (0, 0, 0) as the position of the
  maximum and \<^verbatim>\<open>matrix3d_max_value\<close> returns -2.
\<close>

theorem max_pos_of_negative_tensor:
  "matrix3d_inv example_negative \<and>
   matrix3d_get3 example_negative 0 0 0 = Inr (- 2) \<and>
   matrix3d_get3 example_negative 0 0 1 = Inr (- 1) \<and>
   matrix3d_min_max_pos example_negative = Inr (pos 0 0 0, pos 0 0 0) \<and>
   matrix3d_max_value example_negative = Inr (- 2)"
proof -
  have g: "matrix3d_get example_negative (pos 0 0 0) = Inr (- 2)"
    "matrix3d_get example_negative (pos 0 0 1) = Inr (- 1)"
    by (simp_all add: matrix3d_get_def idx_def pos_def example_negative_def)
  have mm: "matrix3d_min_max_pos example_negative = Inr (pos 0 0 0, pos 0 0 0)"
    by (simp add: matrix3d_min_max_pos_def scan_example_negative)
  then have "matrix3d_max_value example_negative = Inr (- 2)"
    by (simp add: matrix3d_max_value_def matrix3d_max_pos_def g)
  moreover have "matrix3d_inv example_negative"
    by (simp add: matrix3d_inv_def example_negative_def volume_def)
  ultimately show ?thesis using g mm by (simp add: matrix3d_get3_def)
qed

section \<open>The length invariant and the arithmetic\<close>

lemma matrix3d_new_yields: "yields_inv (matrix3d_new shape vs)"
  by (simp add: yields_inv_def matrix3d_new_def matrix3d_inv_def)

lemma matrix3d_new_produces:
  "volume shape = length vs \<Longrightarrow> produces_inv (matrix3d_new shape vs)"
  by (simp add: produces_inv_def matrix3d_new_def matrix3d_inv_def)

lemma matrix3d_zeros_inv: "matrix3d_inv (matrix3d_zeros shape)"
  by (simp add: matrix3d_zeros_def matrix3d_inv_def)

lemma matrix3d_set_yields: "matrix3d_inv m \<Longrightarrow> yields_inv (matrix3d_set m p v)"
  by (simp add: yields_inv_def matrix3d_set_def matrix3d_inv_def)

lemma matrix3d_set_produces:
  "matrix3d_inv m \<Longrightarrow> in_bounds m p \<Longrightarrow> produces_inv (matrix3d_set m p v)"
  using idx_in_range[of m p]
  by (simp add: produces_inv_def matrix3d_set_def matrix3d_inv_def)

lemma transform_yields: "yields_inv (transform_matrix3d f m)"
  using transform_matrix3d_inv[of f m]
  by (cases "transform_matrix3d f m") (simp_all add: yields_inv_def)

lemma transform_produces: "matrix3d_inv m \<Longrightarrow> produces_inv (transform_matrix3d f m)"
  by (simp add: transform_matrix3d_map produces_inv_def matrix3d_inv_def)

lemma reshape_yields: "yields_inv (reshape_matrix3d m s2)"
  by (simp add: reshape_matrix3d_def matrix3d_new_yields)

lemma reshape_produces:
  "matrix3d_inv m \<Longrightarrow> volume s2 = volume (m_size m) \<Longrightarrow> produces_inv (reshape_matrix3d m s2)"
  by (simp add: reshape_matrix3d_def matrix3d_new_produces matrix3d_inv_def)

lemma add_yields: "yields_inv (add_matrix3ds m1 m2)"
  by (simp add: add_matrix3ds_def matrix3d_new_yields) (simp add: yields_inv_def)

lemma add_matrix3ds_zip:
  assumes "matrix3d_inv m1" "matrix3d_inv m2" "m_size m1 = m_size m2"
  shows "add_matrix3ds m1 m2 =
           Inr \<lparr>m_size = m_size m1, m_values = map2 (+) (m_values m1) (m_values m2)\<rparr>"
  using assms by (simp add: add_matrix3ds_def matrix3d_new_def matrix3d_inv_def)

lemma add_produces:
  "matrix3d_inv m1 \<Longrightarrow> matrix3d_inv m2 \<Longrightarrow> m_size m1 = m_size m2 \<Longrightarrow>
     produces_inv (add_matrix3ds m1 m2)"
  by (simp add: add_matrix3ds_zip produces_inv_def matrix3d_inv_def)

lemma multiply_matrix3d_map:
  "matrix3d_inv m \<Longrightarrow> multiply_matrix3d m factor =
     Inr \<lparr>m_size = m_size m, m_values = map (\<lambda>x. factor * x) (m_values m)\<rparr>"
  by (simp add: multiply_matrix3d_def transform_matrix3d_map)

lemma sub_yields: "yields_inv (sub_matrix3d m1 m2)"
  by (cases "multiply_matrix3d m2 (- 1)") (simp_all add: sub_matrix3d_def yields_inv_def add_yields[unfolded yields_inv_def])

lemma sub_matrix3d_zip:
  assumes "matrix3d_inv m1" "matrix3d_inv m2" "m_size m1 = m_size m2"
  shows "sub_matrix3d m1 m2 =
           Inr \<lparr>m_size = m_size m1, m_values = map2 (-) (m_values m1) (m_values m2)\<rparr>"
proof -
  let ?n = "\<lparr>m_size = m_size m2, m_values = map (\<lambda>x. - 1 * x) (m_values m2)\<rparr>"
  have n: "multiply_matrix3d m2 (- 1) = Inr ?n"
    using assms(2) by (rule multiply_matrix3d_map)
  have "matrix3d_inv ?n" using assms(2) by (simp add: matrix3d_inv_def)
  then have "add_matrix3ds m1 ?n =
      Inr \<lparr>m_size = m_size m1, m_values = map2 (+) (m_values m1) (m_values ?n)\<rparr>"
    using assms(1,3) by (intro add_matrix3ds_zip) simp_all
  moreover have "map2 (+) (m_values m1) (m_values ?n) = map2 (-) (m_values m1) (m_values m2)"
    by (simp add: zip_map2 case_prod_unfold)
  ultimately show ?thesis by (simp add: sub_matrix3d_def n)
qed

lemma abs_diff_yields: "yields_inv (abs_diff_matrix3ds m1 m2)"
  by (cases "sub_matrix3d m1 m2")
     (simp_all add: abs_diff_matrix3ds_def abs_matrix3d_values_def transform_yields, simp add: yields_inv_def)

text \<open>
  Claim C7. Every tensor that an operation returns satisfies
  \<open>length (m_values t) = volume (m_size t)\<close>: the two constructors, \<^verbatim>\<open>set\<close> on a tensor
  that satisfies it, \<^verbatim>\<open>transform_matrix3d\<close>, \<^verbatim>\<open>reshape_matrix3d\<close>, \<^verbatim>\<open>add_matrix3ds\<close>,
  \<^verbatim>\<open>sub_matrix3d\<close>, \<^verbatim>\<open>multiply_matrix3d\<close>, \<^verbatim>\<open>divide_matrix3d\<close>,
  \<^verbatim>\<open>abs_matrix3d_values\<close> and \<^verbatim>\<open>abs_diff_matrix3ds\<close> (\<open>yields_inv\<close>). Under its
  precondition each operation does return a tensor (\<open>produces_inv\<close>): data of the
  shape's volume for the constructor, a position inside the shape for \<^verbatim>\<open>set\<close>, a
  shape of the same volume for \<^verbatim>\<open>reshape_matrix3d\<close>, operands of one shape for the
  binary operations.
\<close>

theorem length_invariant:
  "yields_inv (matrix3d_new shape vs) \<and>
   (volume shape = length vs \<longrightarrow> produces_inv (matrix3d_new shape vs)) \<and>
   matrix3d_inv (matrix3d_zeros shape) \<and>
   (matrix3d_inv m \<longrightarrow> yields_inv (matrix3d_set m p v)) \<and>
   (matrix3d_inv m \<and> in_bounds m p \<longrightarrow> produces_inv (matrix3d_set m p v)) \<and>
   yields_inv (transform_matrix3d f m) \<and>
   (matrix3d_inv m \<longrightarrow> produces_inv (transform_matrix3d f m)) \<and>
   yields_inv (reshape_matrix3d m s2) \<and>
   (matrix3d_inv m \<and> volume s2 = volume (m_size m) \<longrightarrow> produces_inv (reshape_matrix3d m s2)) \<and>
   yields_inv (multiply_matrix3d m c) \<and>
   (matrix3d_inv m \<longrightarrow> produces_inv (multiply_matrix3d m c)) \<and>
   yields_inv (divide_matrix3d m c) \<and>
   (matrix3d_inv m \<longrightarrow> produces_inv (divide_matrix3d m c)) \<and>
   yields_inv (abs_matrix3d_values m) \<and>
   (matrix3d_inv m \<longrightarrow> produces_inv (abs_matrix3d_values m)) \<and>
   yields_inv (add_matrix3ds m1 m2) \<and>
   yields_inv (sub_matrix3d m1 m2) \<and>
   yields_inv (abs_diff_matrix3ds m1 m2) \<and>
   (matrix3d_inv m1 \<and> matrix3d_inv m2 \<and> m_size m1 = m_size m2 \<longrightarrow>
      produces_inv (add_matrix3ds m1 m2) \<and>
      produces_inv (sub_matrix3d m1 m2) \<and>
      produces_inv (abs_diff_matrix3ds m1 m2))"
proof -
  have unary: "yields_inv (multiply_matrix3d m c)" "yields_inv (divide_matrix3d m c)"
    "yields_inv (abs_matrix3d_values m)"
    by (simp_all add: multiply_matrix3d_def divide_matrix3d_def abs_matrix3d_values_def
        transform_yields)
  have unary_total: "produces_inv (multiply_matrix3d m c)" "produces_inv (divide_matrix3d m c)"
    "produces_inv (abs_matrix3d_values m)" if "matrix3d_inv m"
    using that by (simp_all add: multiply_matrix3d_def divide_matrix3d_def
        abs_matrix3d_values_def transform_produces)
  have binary_total: "produces_inv (add_matrix3ds m1 m2)" "produces_inv (sub_matrix3d m1 m2)"
    "produces_inv (abs_diff_matrix3ds m1 m2)"
    if "matrix3d_inv m1" "matrix3d_inv m2" "m_size m1 = m_size m2"
  proof -
    show "produces_inv (add_matrix3ds m1 m2)" using that by (rule add_produces)
    have s: "sub_matrix3d m1 m2 =
        Inr \<lparr>m_size = m_size m1, m_values = map2 (-) (m_values m1) (m_values m2)\<rparr>"
      using that by (rule sub_matrix3d_zip)
    have i: "matrix3d_inv \<lparr>m_size = m_size m1, m_values = map2 (-) (m_values m1) (m_values m2)\<rparr>"
      using that by (simp add: matrix3d_inv_def)
    show "produces_inv (sub_matrix3d m1 m2)"
      using i by (simp add: s produces_inv_def)
    show "produces_inv (abs_diff_matrix3ds m1 m2)"
      using transform_produces[OF i, of abs]
      by (simp add: abs_diff_matrix3ds_def s abs_matrix3d_values_def)
  qed
  show ?thesis
    using unary unary_total binary_total
    by (simp add: matrix3d_new_yields matrix3d_new_produces matrix3d_zeros_inv
        matrix3d_set_yields matrix3d_set_produces transform_yields transform_produces
        reshape_yields reshape_produces add_yields sub_yields abs_diff_yields)
qed

theorem length_invariant_witness:
  "volume \<lparr>s_depth = 1, s_height = 2, s_width = 2\<rparr> = length [1, 2, 3, 4 :: real] \<and>
   matrix3d_inv example_2x2 \<and> matrix3d_inv example_tens \<and>
   in_bounds example_2x2 (pos 0 1 0) \<and>
   volume \<lparr>s_depth = 2, s_height = 2, s_width = 1\<rparr> = volume (m_size example_2x2) \<and>
   m_size example_2x2 = m_size example_tens \<and>
   produces_inv (matrix3d_new \<lparr>s_depth = 1, s_height = 2, s_width = 2\<rparr> [1, 2, 3, 4]) \<and>
   produces_inv (matrix3d_set example_2x2 (pos 0 1 0) 9) \<and>
   produces_inv (transform_matrix3d (\<lambda>x. x * x) example_2x2) \<and>
   produces_inv (reshape_matrix3d example_2x2 \<lparr>s_depth = 2, s_height = 2, s_width = 1\<rparr>) \<and>
   produces_inv (multiply_matrix3d example_2x2 2) \<and>
   produces_inv (divide_matrix3d example_2x2 2) \<and>
   produces_inv (abs_matrix3d_values example_2x2) \<and>
   produces_inv (add_matrix3ds example_2x2 example_tens) \<and>
   produces_inv (sub_matrix3d example_2x2 example_tens) \<and>
   produces_inv (abs_diff_matrix3ds example_2x2 example_tens)"
proof -
  have v: "volume \<lparr>s_depth = 1, s_height = 2, s_width = 2\<rparr> = length [1, 2, 3, 4 :: real]"
    by (simp add: volume_def)
  have inv: "matrix3d_inv example_2x2" "matrix3d_inv example_tens"
    by (simp_all add: matrix3d_inv_def example_2x2_def example_tens_def volume_def)
  have inb: "in_bounds example_2x2 (pos 0 1 0)"
    by (simp add: in_bounds_def example_2x2_def pos_def)
  have v2: "volume \<lparr>s_depth = 2, s_height = 2, s_width = 1\<rparr> = volume (m_size example_2x2)"
    by (simp add: example_2x2_def volume_def)
  have sz: "m_size example_2x2 = m_size example_tens"
    by (simp add: example_2x2_def example_tens_def)
  show ?thesis
    using v inv inb v2 sz
      length_invariant[of "\<lparr>s_depth = 1, s_height = 2, s_width = 2\<rparr>" "[1, 2, 3, 4]"
        example_2x2 "pos 0 1 0" 9 "\<lambda>x. x * x" "\<lparr>s_depth = 2, s_height = 2, s_width = 1\<rparr>" 2
        example_2x2 example_tens]
    by blast
qed

text \<open>
  Claim C8. For tensors \<open>a\<close> and \<open>b\<close> of one shape, \<^verbatim>\<open>add_matrix3ds a b\<close> and
  \<^verbatim>\<open>add_matrix3ds b a\<close> are the same tensor, the elementwise sum; and \<^verbatim>\<open>sub_matrix3d a b\<close>
  is \<^verbatim>\<open>add_matrix3ds\<close> of \<open>a\<close> and the tensor that \<^verbatim>\<open>multiply_matrix3d b (-1)\<close> returns,
  the elementwise difference.
\<close>

theorem add_commutes_sub_adds_negation:
  assumes "matrix3d_inv a" "matrix3d_inv b" "m_size a = m_size b"
  shows "add_matrix3ds a b = add_matrix3ds b a \<and>
         add_matrix3ds a b =
           Inr \<lparr>m_size = m_size a, m_values = map2 (+) (m_values a) (m_values b)\<rparr> \<and>
         (\<exists>n. multiply_matrix3d b (- 1) = Inr n \<and> sub_matrix3d a b = add_matrix3ds a n) \<and>
         sub_matrix3d a b =
           Inr \<lparr>m_size = m_size a, m_values = map2 (-) (m_values a) (m_values b)\<rparr>"
proof -
  have swap: "map2 (+) (m_values b) (m_values a) = map2 (+) (m_values a) (m_values b)"
    by (subst zip_commute) (simp add: case_prod_unfold add.commute)
  have ab: "add_matrix3ds a b =
      Inr \<lparr>m_size = m_size a, m_values = map2 (+) (m_values a) (m_values b)\<rparr>"
    using assms by (rule add_matrix3ds_zip)
  have ba: "add_matrix3ds b a =
      Inr \<lparr>m_size = m_size b, m_values = map2 (+) (m_values b) (m_values a)\<rparr>"
    using assms by (intro add_matrix3ds_zip) simp_all
  have comm: "add_matrix3ds a b = add_matrix3ds b a"
    by (simp add: ab ba swap assms(3))
  obtain n where n: "multiply_matrix3d b (- 1) = Inr n"
    using multiply_matrix3d_map[OF assms(2)] by blast
  then have "sub_matrix3d a b = add_matrix3ds a n"
    by (simp add: sub_matrix3d_def)
  with n comm ab sub_matrix3d_zip[OF assms] show ?thesis by blast
qed

theorem add_commutes_sub_adds_negation_witness:
  "matrix3d_inv example_2x2 \<and> matrix3d_inv example_tens \<and>
   m_size example_2x2 = m_size example_tens \<and>
   add_matrix3ds example_2x2 example_tens = add_matrix3ds example_tens example_2x2 \<and>
   add_matrix3ds example_2x2 example_tens =
     Inr \<lparr>m_size = \<lparr>s_depth = 1, s_height = 2, s_width = 2\<rparr>, m_values = [11, 22, 33, 44]\<rparr> \<and>
   sub_matrix3d example_2x2 example_tens =
     Inr \<lparr>m_size = \<lparr>s_depth = 1, s_height = 2, s_width = 2\<rparr>,
          m_values = [- 9, - 18, - 27, - 36]\<rparr>"
proof -
  have inv: "matrix3d_inv example_2x2" "matrix3d_inv example_tens"
    by (simp_all add: matrix3d_inv_def example_2x2_def example_tens_def volume_def)
  have sz: "m_size example_2x2 = m_size example_tens"
    by (simp add: example_2x2_def example_tens_def)
  have vals: "m_size example_2x2 = \<lparr>s_depth = 1, s_height = 2, s_width = 2\<rparr>"
    "map2 (+) (m_values example_2x2) (m_values example_tens) = [11, 22, 33, 44]"
    "map2 (-) (m_values example_2x2) (m_values example_tens) = [- 9, - 18, - 27, - 36]"
    by (simp_all add: example_2x2_def example_tens_def)
  show ?thesis
    using inv sz add_commutes_sub_adds_negation[OF inv sz, unfolded vals] by blast
qed

end
